theory Spec2Isabelle
  imports Main
begin

section \<open>Token classification for autocomplete\<close>

text \<open>
  The classification module builds each of its tables as a JavaScript \<^verbatim>\<open>Set\<close> of
  token-type names from an array literal. A table is modelled as the set of the strings
  of that literal, in the order the source lists them.
\<close>

definition ALWAYS_SUGGEST_KEYWORDS :: "string set" where
  "ALWAYS_SUGGEST_KEYWORDS = set [''Current'']"

definition PUNCTUATION_TOKENS :: "string set" where
  "PUNCTUATION_TOKENS = set [
     ''LParen'',
     ''RParen'',
     ''Comma'',
     ''Semicolon'',
     ''LBracket'',
     ''RBracket'']"

definition SKIP_TOKENS :: "string set" where
  "SKIP_TOKENS = set [
     ''LParen'',
     ''RParen'',
     ''Comma'',
     ''Dot'',
     ''Semicolon'',
     ''AtSign'',
     ''ColonEquals'',
     ''LBracket'',
     ''RBracket'',
     ''Equals'',
     ''NotEquals'',
     ''LessThan'',
     ''LessThanOrEqual'',
     ''GreaterThan'',
     ''GreaterThanOrEqual'',
     ''Plus'',
     ''Minus'',
     ''Star'',
     ''Divide'',
     ''Modulo'',
     ''Concat'',
     ''DoubleColon'',
     ''RegexMatch'',
     ''RegexNotMatch'',
     ''RegexNotEquals'',
     ''BitAnd'',
     ''BitXor'',
     ''BitOr'',
     ''VariableReference'',
     ''StringLiteral'',
     ''NumberLiteral'',
     ''LongLiteral'',
     ''DecimalLiteral'',
     ''DurationLiteral'',
     ''GeohashLiteral'',
     ''GeohashBinaryLiteral'',
     ''Nan'',
     ''WhiteSpace'']"

definition shouldSkipToken :: "string \<Rightarrow> bool" where
  "shouldSkipToken tokenName = (tokenName \<in> SKIP_TOKENS)"

section \<open>JavaScript string operations used by the serializer\<close>

text \<open>\<^verbatim>\<open>Array.prototype.join\<close> on an array of strings.\<close>

fun joinWith :: "string \<Rightarrow> string list \<Rightarrow> string" where
  "joinWith sep [] = []"
| "joinWith sep [x] = x"
| "joinWith sep (x # y # ys) = x @ sep @ joinWith sep (y # ys)"

text \<open>
  \<^verbatim>\<open>String.prototype.includes\<close>, which the tests use through \<^verbatim>\<open>toContain\<close>: the
  second string occurs in the first at some position.
\<close>

primrec strIncludes :: "string \<Rightarrow> string \<Rightarrow> bool" where
  "strIncludes [] sub = (sub = [])"
| "strIncludes (c # cs) sub = (take (length sub) (c # cs) = sub \<or> strIncludes cs sub)"

text \<open>
  The text JavaScript gives an integral number in a template string: its decimal digits,
  after a minus sign when it is negative.
\<close>

definition digitChar :: "nat \<Rightarrow> char" where
  "digitChar d = ''0123456789'' ! d"

fun natToString :: "nat \<Rightarrow> string" where
  "natToString n =
     (if n < 10 then [digitChar n] else natToString (n div 10) @ [digitChar (n mod 10)])"

declare natToString.simps [simp del]

definition numberToString :: "int \<Rightarrow> string" where
  "numberToString i =
     (if i < 0 then CHR ''-'' # natToString (nat (- i)) else natToString (nat i))"

section \<open>Serializer\<close>

subsection \<open>RESUME WAL\<close>

record ResumeWalStatement =
  fromTransaction :: "int option"
  fromTxn :: "int option"

text \<open>
  Modelled from the spec: \<^verbatim>\<open>resumeWalToSql\<close> of the serializer (toSql.ts), which is
  not among the source files at hand. The spec asks for exactly one clause, chosen by a
  fixed field precedence; tests/review-proofs.test.ts (lines 254--265) fixes that
  precedence and the text: an else-if in which \<^verbatim>\<open>fromTransaction\<close> wins, and
  \<^verbatim>\<open>RESUME WAL FROM TRANSACTION 5\<close> for the statement with both fields set. An absent
  optional field is \<open>None\<close>.
\<close>

definition resumeWalClauses :: "ResumeWalStatement \<Rightarrow> string list" where
  "resumeWalClauses stmt =
     (case fromTransaction stmt of
        Some n \<Rightarrow> [''FROM TRANSACTION '' @ numberToString n]
      | None \<Rightarrow>
          (case fromTxn stmt of
             Some n \<Rightarrow> [''FROM TXN '' @ numberToString n]
           | None \<Rightarrow> []))"

definition resumeWalToSql :: "ResumeWalStatement \<Rightarrow> string" where
  "resumeWalToSql stmt = joinWith '' '' (''RESUME WAL'' # resumeWalClauses stmt)"

subsection \<open>Expressions\<close>

type_synonym QualifiedName = "string list"

datatype Expression =
    ColumnRef QualifiedName
  | Binary string Expression Expression
  | Paren Expression

text \<open>
  The expression printer (toSql.ts) is not among the source files at hand.
  tests/review-proofs.test.ts (lines 322--332) describes \<^verbatim>\<open>binaryExprToSql\<close> as always
  emitting \<^verbatim>\<open>left op right\<close> with no parentheses, and asserts that the tree
  multiply(add(a, b), c) prints with \<^verbatim>\<open>a + b * c\<close> in it and without \<^verbatim>\<open>(a + b)\<close>.
  The definition follows that description. A qualified name is printed as its parts
  joined by dots; the quoting of names that need it is left out, the names of the test
  being plain.
\<close>

definition qualifiedNameToSql :: "QualifiedName \<Rightarrow> string" where
  "qualifiedNameToSql parts = joinWith ''.'' parts"

fun exprToSql :: "Expression \<Rightarrow> string" where
  "exprToSql (ColumnRef n) = qualifiedNameToSql n"
| "exprToSql (Binary operator left right) =
     exprToSql left @ '' '' @ operator @ '' '' @ exprToSql right"
| "exprToSql (Paren inner) = ''('' @ exprToSql inner @ '')''"

subsection \<open>CREATE TABLE\<close>

record ColumnDefinition =
  name :: string
  dataType :: string

record IndexDefinition =
  column :: QualifiedName

record CreateTableStatement =
  table :: QualifiedName
  columns :: "ColumnDefinition list"
  indexes :: "IndexDefinition list"

text \<open>
  \<^verbatim>\<open>createTableToSql\<close> (toSql.ts) is not among the source files at hand.
  tests/review-proofs.test.ts (lines 286--292) describes it: it builds the parenthesised
  column list and then appends the comma and the index declarations after the closing
  parenthesis, giving \<^verbatim>\<open>CREATE TABLE my_table (id INT, name STRING), INDEX(name)\<close> for
  the statement of the test. The definition follows that description for a statement
  that has a name, columns and indexes only.
\<close>

definition columnDefToSql :: "ColumnDefinition \<Rightarrow> string" where
  "columnDefToSql col = name col @ '' '' @ dataType col"

definition indexDefToSql :: "IndexDefinition \<Rightarrow> string" where
  "indexDefToSql idx = ''INDEX('' @ qualifiedNameToSql (column idx) @ '')''"

definition createTableToSql :: "CreateTableStatement \<Rightarrow> string" where
  "createTableToSql stmt =
     ''CREATE TABLE '' @ qualifiedNameToSql (table stmt)
       @ '' ('' @ joinWith '', '' (map columnDefToSql (columns stmt)) @ '')''
       @ (if indexes stmt = [] then []
          else '', '' @ joinWith '', '' (map indexDefToSql (indexes stmt)))"

section \<open>Tree builder\<close>

text \<open>
  The tree builder (visitor.ts) is not among the source files at hand. A visitor method
  receives \<^verbatim>\<open>ctx\<close>, the children its grammar rule consumed, keyed by token-type name;
  \<^verbatim>\<open>ctx.Groups\<close> is truthy when the rule consumed a Groups token. \<open>ctx\<close> is modelled
  as the list of the token-type names present.
\<close>

definition ctxHas :: "string list \<Rightarrow> string \<Rightarrow> bool" where
  "ctxHas ctx tokenName = (tokenName \<in> set ctx)"

text \<open>
  The frame mode of \<^verbatim>\<open>windowFrameClause\<close>, from tests/review-proofs.test.ts (lines
  62--68): the visitor tests \<^verbatim>\<open>ctx.Groups\<close> before the final else branch, which is
  the one that yields the cumulative mode, and the GROUPS token of an EXCLUDE GROUPS
  clause is a child of the same rule. The tests for Rows and Range stand for the two
  other explicit modes; their order is not given there and plays no part when neither
  token is present.
\<close>

definition windowFrameMode :: "string list \<Rightarrow> string" where
  "windowFrameMode ctx =
     (if ctxHas ctx ''Rows'' then ''rows''
      else if ctxHas ctx ''Range'' then ''range''
      else if ctxHas ctx ''Groups'' then ''groups''
      else ''cumulative'')"

text \<open>
  The join type of a join clause, from tests/review-proofs.test.ts (lines 346--353): an
  if-else chain over the join keywords with no case for Natural or Prevailing, after
  which \<^verbatim>\<open>joinType\<close> is still undefined (\<open>None\<close>). The cases the chain has are taken
  to be the other join types of the data model.
\<close>

definition joinTypeOf :: "string list \<Rightarrow> string option" where
  "joinTypeOf ctx =
     (if ctxHas ctx ''Inner'' then Some ''inner''
      else if ctxHas ctx ''Left'' then Some ''left''
      else if ctxHas ctx ''Right'' then Some ''right''
      else if ctxHas ctx ''Full'' then Some ''full''
      else if ctxHas ctx ''Cross'' then Some ''cross''
      else None)"

text \<open>
  The unit of a TTL duration in \<^verbatim>\<open>extractTtl\<close>, from tests/review-proofs.test.ts
  (lines 434--437), which quotes the table
  \<^verbatim>\<open>{ h: "HOURS", d: "DAYS", w: "WEEKS", M: "MONTHS", y: "YEARS" }\<close> and the fallback
  \<^verbatim>\<open>?? "DAYS"\<close> for a suffix the table does not have.
\<close>

definition ttlUnitOf :: "string \<Rightarrow> string" where
  "ttlUnitOf suffix =
     (case map_of [(''h'', ''HOURS''), (''d'', ''DAYS''), (''w'', ''WEEKS''),
                   (''M'', ''MONTHS''), (''y'', ''YEARS'')] suffix of
        Some u \<Rightarrow> u
      | None \<Rightarrow> ''DAYS'')"

section \<open>Tokenizer\<close>

text \<open>
  The lexer (lexer.ts) is not among the source files at hand. tests/review-proofs.test.ts
  (line 115) quotes the first alternative of the NumberLiteral pattern,
  \<^verbatim>\<open>\d[\d_]*\.?[\d_]*\<close>. A JavaScript alternation takes its first alternative that
  matches, and every quantifier of this one is greedy with nothing after it to give
  characters back to, so on an input that starts with a digit the pattern matches what
  \<open>numberPatternMatch\<close> returns: a digit, the longest run of digits and underscores, a
  dot if one is next, and again the longest run of digits and underscores.
\<close>

definition isDigit :: "char \<Rightarrow> bool" where
  "isDigit c = (c \<in> set ''0123456789'')"

definition isDigitOrUnderscore :: "char \<Rightarrow> bool" where
  "isDigitOrUnderscore c = (isDigit c \<or> c = CHR ''_'')"

definition numberPatternMatch :: "string \<Rightarrow> string option" where
  "numberPatternMatch s =
     (case s of
        [] \<Rightarrow> None
      | c # cs \<Rightarrow>
          if isDigit c then
            (let intPart = takeWhile isDigitOrUnderscore cs;
                 rest = dropWhile isDigitOrUnderscore cs;
                 dot = (case rest of [] \<Rightarrow> [] | d # _ \<Rightarrow> if d = CHR ''.'' then [d] else []);
                 fracPart = takeWhile isDigitOrUnderscore (drop (length dot) rest)
             in Some (c # intPart @ dot @ fracPart))
          else None)"

section \<open>Properties of the token classification\<close>

lemma always_suggest_not_skipped:
  "k \<in> ALWAYS_SUGGEST_KEYWORDS \<Longrightarrow> \<not> shouldSkipToken k"
  by (simp add: ALWAYS_SUGGEST_KEYWORDS_def shouldSkipToken_def SKIP_TOKENS_def)

text \<open>
  Claim C10. Every token kind of \<open>PUNCTUATION_TOKENS\<close> (LParen, RParen, Comma,
  Semicolon, LBracket, RBracket) is a member of \<open>SKIP_TOKENS\<close>, so
  \<open>shouldSkipToken\<close> answers true for every punctuation kind: the kind classification
  itself never lets a punctuation kind through.
\<close>

theorem punctuation_tokens_are_skipped:
  "PUNCTUATION_TOKENS \<subseteq> SKIP_TOKENS \<and> (\<forall>k \<in> PUNCTUATION_TOKENS. shouldSkipToken k)"
  by (simp add: PUNCTUATION_TOKENS_def shouldSkipToken_def SKIP_TOKENS_def)

theorem punctuation_tokens_are_skipped_witness:
  "''LBracket'' \<in> PUNCTUATION_TOKENS \<and> ''LBracket'' \<in> SKIP_TOKENS \<and> shouldSkipToken ''LBracket''"
proof -
  have m: "''LBracket'' \<in> PUNCTUATION_TOKENS"
    by (simp add: PUNCTUATION_TOKENS_def)
  from punctuation_tokens_are_skipped have "PUNCTUATION_TOKENS \<subseteq> SKIP_TOKENS"
    and "\<forall>k \<in> PUNCTUATION_TOKENS. shouldSkipToken k" by blast+
  with m show ?thesis by blast
qed

section \<open>Properties of the string operations\<close>

lemma digitChar_digit: "d < 10 \<Longrightarrow> digitChar d \<in> set ''0123456789''"
  unfolding digitChar_def by (rule nth_mem) simp

lemma natToString_small: "n < 10 \<Longrightarrow> natToString n = [digitChar n]"
  by (subst natToString.simps) simp

lemma natToString_digits: "set (natToString n) \<subseteq> set ''0123456789''"
proof (induction n rule: natToString.induct)
  case (1 n)
  show ?case
  proof (cases "n < 10")
    case True
    with digitChar_digit [of n] show ?thesis
      by (subst natToString.simps) simp
  next
    case False
    have "digitChar (n mod 10) \<in> set ''0123456789''"
      by (rule digitChar_digit) simp
    with False "1.IH" show ?thesis
      by (subst natToString.simps) simp
  qed
qed

lemma numberToString_chars: "set (numberToString i) \<subseteq> set ''-0123456789''"
proof -
  have d: "set (natToString n) \<subseteq> set ''-0123456789''" for n
    using natToString_digits [of n] by (rule subset_trans) (rule set_subset_Cons)
  have m: "CHR ''-'' \<in> set ''-0123456789''"
    by (simp only: list.set insertI1)
  show ?thesis
  proof (cases "i < 0")
    case True
    then have "numberToString i = CHR ''-'' # natToString (nat (- i))"
      by (simp add: numberToString_def)
    with d [of "nat (- i)"] m show ?thesis
      by (simp only: list.set(2) insert_subset)
  next
    case False
    then have "numberToString i = natToString (nat i)"
      by (simp add: numberToString_def)
    with d [of "nat i"] show ?thesis by (simp only:)
  qed
qed

lemma strIncludes_set: "strIncludes s sub \<Longrightarrow> set sub \<subseteq> set s"
proof (induction s)
  case Nil
  then show ?case by simp
next
  case (Cons c cs)
  from Cons.prems consider "take (length sub) (c # cs) = sub" | "strIncludes cs sub"
    by auto
  then show ?case
  proof cases
    case 1
    have "set (take (length sub) (c # cs)) \<subseteq> set (c # cs)" by (rule set_take_subset)
    with 1 show ?thesis by simp
  next
    case 2
    with Cons.IH show ?thesis by auto
  qed
qed

lemma strIncludes_prefix: "strIncludes (sub @ q) sub"
proof (cases "sub @ q")
  case Nil
  then show ?thesis by simp
next
  case (Cons c cs)
  have t: "take (length sub) (c # cs) = sub"
    by (subst Cons [symmetric]) simp
  show ?thesis by (simp add: Cons t)
qed

lemma strIncludes_append: "strIncludes (p @ sub @ q) sub"
proof (induction p)
  case Nil
  show ?case using strIncludes_prefix by simp
next
  case (Cons c p)
  then show ?case by simp
qed

section \<open>Properties of the serializer\<close>

text \<open>
  Claim C9. A RESUME WAL statement in which both \<open>fromTransaction\<close> and \<open>fromTxn\<close>
  are set is printed with exactly one clause, the one of \<open>fromTransaction\<close>: the text
  is RESUME WAL FROM TRANSACTION followed by that number, it contains FROM TRANSACTION,
  and FROM TXN occurs nowhere in it.
\<close>

theorem resumeWal_emits_one_clause:
  assumes "fromTransaction stmt = Some a" and "fromTxn stmt = Some b"
  shows "resumeWalClauses stmt = [''FROM TRANSACTION '' @ numberToString a] \<and>
         resumeWalToSql stmt = ''RESUME WAL FROM TRANSACTION '' @ numberToString a \<and>
         strIncludes (resumeWalToSql stmt) ''FROM TRANSACTION'' \<and>
         \<not> strIncludes (resumeWalToSql stmt) ''FROM TXN''"
proof -
  have cl: "resumeWalClauses stmt = [''FROM TRANSACTION '' @ numberToString a]"
    using assms by (simp add: resumeWalClauses_def)
  have out: "resumeWalToSql stmt = ''RESUME WAL FROM TRANSACTION '' @ numberToString a"
    by (simp add: resumeWalToSql_def cl)
  have "resumeWalToSql stmt = ''RESUME WAL '' @ ''FROM TRANSACTION'' @ ('' '' @ numberToString a)"
    by (simp add: out)
  then have pos: "strIncludes (resumeWalToSql stmt) ''FROM TRANSACTION''"
    by (simp only: strIncludes_append)
  have "CHR ''X'' \<notin> set (numberToString a)"
    using numberToString_chars [of a] by (rule contra_subsetD) simp
  then have "CHR ''X'' \<notin> set (resumeWalToSql stmt)"
    by (simp add: out)
  moreover have "CHR ''X'' \<in> set ''FROM TXN''" by simp
  ultimately have neg: "\<not> strIncludes (resumeWalToSql stmt) ''FROM TXN''"
    using strIncludes_set by blast
  from cl out pos neg show ?thesis by blast
qed

theorem resumeWal_emits_one_clause_witness:
  "resumeWalToSql \<lparr>fromTransaction = Some 5, fromTxn = Some 10\<rparr> = ''RESUME WAL FROM TRANSACTION 5'' \<and>
   \<not> strIncludes (resumeWalToSql \<lparr>fromTransaction = Some 5, fromTxn = Some 10\<rparr>) ''FROM TXN''"
  using resumeWal_emits_one_clause [of "\<lparr>fromTransaction = Some 5, fromTxn = Some 10\<rparr>" 5 10]
  by (simp add: numberToString_def natToString_small digitChar_def)

text \<open>
  Claim C2 asks that multiply(add(a, b), c), built without a Paren node, print as
  (a + b) * c. The printer described by the test does not: the tree prints as
  a + b * c, and the text (a + b) occurs nowhere in the output.
\<close>

theorem binary_left_child_not_parenthesised:
  "exprToSql (Binary ''*'' (Binary ''+'' (ColumnRef [''a'']) (ColumnRef [''b''])) (ColumnRef [''c'']))
     = ''a + b * c'' \<and>
   \<not> strIncludes
     (exprToSql (Binary ''*'' (Binary ''+'' (ColumnRef [''a'']) (ColumnRef [''b''])) (ColumnRef [''c''])))
     ''(a + b)''"
  by (simp add: qualifiedNameToSql_def)

text \<open>
  Claim C4 asks that the column definitions and the index declarations of a CREATE TABLE
  statement be printed inside one parenthesis pair. The serializer described by the test
  does not: for two columns and one index the index declaration follows the closing
  parenthesis of the column list.
\<close>

theorem createTable_index_outside_parentheses:
  "createTableToSql
     \<lparr>table = [''my_table''],
      columns = [\<lparr>name = ''id'', dataType = ''INT''\<rparr>, \<lparr>name = ''name'', dataType = ''STRING''\<rparr>],
      indexes = [\<lparr>column = [''name'']\<rparr>]\<rparr>
     = ''CREATE TABLE my_table (id INT, name STRING), INDEX(name)''"
  by (simp add: createTableToSql_def columnDefToSql_def indexDefToSql_def qualifiedNameToSql_def)

section \<open>Properties of the tree builder\<close>

text \<open>
  Claim C1 asks that CUMULATIVE BETWEEN UNBOUNDED PRECEDING AND CURRENT ROW EXCLUDE
  GROUPS give the frame mode cumulative. With the keyword tokens of that clause as the
  children of the rule, the mode computed is groups; without the EXCLUDE clause it is
  cumulative.
\<close>

theorem cumulative_frame_with_exclude_groups_is_groups:
  "windowFrameMode [''Cumulative'', ''Between'', ''And'', ''Exclude'', ''Groups''] = ''groups'' \<and>
   windowFrameMode [''Cumulative''] = ''cumulative''"
  by (simp add: windowFrameMode_def ctxHas_def)

text \<open>
  Claim C5 asks that every explicit join keyword give a join type. For the children of
  a NATURAL JOIN the chain of the visitor gives none.
\<close>

theorem natural_join_has_no_joinType:
  "joinTypeOf [''Natural'', ''Join''] = None"
  by (simp add: joinTypeOf_def ctxHas_def)

text \<open>
  Claim C3 asks that the suffix m of a TTL duration give the unit minutes, and that an
  unknown suffix be an error. The unit table has no entry for m, and the fallback makes
  it days; the upper-case M is months.
\<close>

theorem ttl_minutes_suffix_becomes_days:
  "ttlUnitOf ''m'' = ''DAYS'' \<and> ttlUnitOf ''M'' = ''MONTHS''"
  by (simp add: ttlUnitOf_def)

section \<open>Properties of the tokenizer\<close>

text \<open>
  Claim C7 asks that the numeric pattern leave a trailing dot out of the literal unless
  digits follow it. The quoted pattern takes the dot: on 1. it matches the whole input,
  and on 1.x it matches 1. and leaves x.
\<close>

theorem number_pattern_takes_trailing_dot:
  "numberPatternMatch ''1.'' = Some ''1.'' \<and> numberPatternMatch ''1.x'' = Some ''1.''"
  by (simp add: numberPatternMatch_def isDigit_def isDigitOrUnderscore_def)

end
